theory Spec2Isabelle
  imports Main "HOL-Library.List_Lexorder"
begin

section \<open>The rendered tree\<close>

text \<open>
  The text tag renders its value into one root element (\<open>render\<close> replaces every
  newline of the value by a \<open>br\<close> element and hands the result to the browser). What the
  traversals of \<open>Text.js\<close> read of a DOM node is its \<open>nodeName\<close>, the \<open>length\<close> of a text
  node and its \<open>childNodes\<close>. A text node is \<open>Text s\<close> (\<open>nodeName\<close> is \<open>#text\<close>, no
  children), every other node is \<open>Elem name children\<close>; a line break is an element named
  \<open>BR\<close>. A node is referred to by its path: the child indices that lead to it from the
  root. Offsets are JavaScript numbers; only integers occur, and they may be negative.
\<close>

datatype node = Text string | Elem string "node list"

type_synonym path = "nat list"

fun nodeName :: "node \<Rightarrow> string" where
  "nodeName (Text s) = ''#text''"
| "nodeName (Elem name cs) = name"

fun childNodes :: "node \<Rightarrow> node list" where
  "childNodes (Text s) = []"
| "childNodes (Elem name cs) = cs"

fun nodeAt :: "node \<Rightarrow> path \<Rightarrow> node option" where
  "nodeAt n [] = Some n"
| "nodeAt n (i # p) =
     (if i < length (childNodes n) then nodeAt (childNodes n ! i) p else None)"

section \<open>Offset resolution: \<open>findNode\<close> (\<open>_handleUpdate\<close>, lines 352 to 377)\<close>

text \<open>
  \<open>traverse\<close> is the inner closure of \<open>findNode\<close>. The closure variable \<open>left\<close> is shared
  by all recursive calls, so it is threaded through: the result is the returned object
  \<open>{node, left}\<close> (\<open>None\<close> for \<open>undefined\<close>) together with the value of \<open>left\<close> afterwards.
  The loop over \<open>childNodes\<close> runs one index past the end, where \<open>childNodes[i]\<close> is
  \<open>undefined\<close> and is skipped; that is the empty-list case of \<open>traverse_children\<close>.
\<close>

fun traverse :: "node \<Rightarrow> path \<Rightarrow> int \<Rightarrow> (path \<times> int) option \<times> int"
  and traverse_children :: "node list \<Rightarrow> path \<Rightarrow> nat \<Rightarrow> int \<Rightarrow> (path \<times> int) option \<times> int"
where
  "traverse (Text s) p left =
     (if left - int (length s) \<le> 0 then (Some (p, left), left)
      else (None, left - int (length s)))"
| "traverse (Elem name cs) p left =
     (if name = ''BR'' then
        (if left - 1 < 0 then (Some (p, left), left)
         else traverse_children cs p 0 (left - 1))
      else traverse_children cs p 0 left)"
| "traverse_children [] p i left = (None, left)"
| "traverse_children (n # ns) p i left =
     (case traverse n (p @ [i]) left of
        (Some res, left') \<Rightarrow> (Some res, left')
      | (None, left') \<Rightarrow> traverse_children ns p (Suc i) left')"

definition findNode :: "node \<Rightarrow> int \<Rightarrow> (path \<times> int) option" where
  "findNode el pos = fst (traverse el [] pos)"

section \<open>Global offsets\<close>

text \<open>
  Modelled from the spec: \<open>Utils.HTML.toGlobalOffset\<close> (\<open>utils/html.js\<close>) is not among the
  sources. Section 4.1: a pre-order traversal of the root up to and including the node;
  a text node contributes its full length unless it is the node, in which case only
  \<open>localOffset\<close> characters are added; a line-break element contributes 1 when passed
  over and exactly \<open>localOffset\<close> when it is itself the target; the accumulated sum is
  returned. Any other element contributes nothing. \<open>count\<close> returns whether the target was
  reached and the sum so far.
\<close>

fun count :: "node \<Rightarrow> path \<Rightarrow> path \<Rightarrow> int \<Rightarrow> int \<Rightarrow> bool \<times> int"
  and count_children :: "node list \<Rightarrow> path \<Rightarrow> nat \<Rightarrow> path \<Rightarrow> int \<Rightarrow> int \<Rightarrow> bool \<times> int"
where
  "count (Text s) p target localOffset pos =
     (if p = target then (True, pos + localOffset) else (False, pos + int (length s)))"
| "count (Elem name cs) p target localOffset pos =
     (if p = target then (True, if name = ''BR'' then pos + localOffset else pos)
      else count_children cs p 0 target localOffset (if name = ''BR'' then pos + 1 else pos))"
| "count_children [] p i target localOffset pos = (False, pos)"
| "count_children (n # ns) p i target localOffset pos =
     (case count n (p @ [i]) target localOffset pos of
        (True, pos') \<Rightarrow> (True, pos')
      | (False, pos') \<Rightarrow> count_children ns p (Suc i) target localOffset pos')"

definition toGlobalOffset :: "node \<Rightarrow> path \<Rightarrow> int \<Rightarrow> int" where
  "toGlobalOffset root target localOffset = snd (count root [] target localOffset 0)"

text \<open>
  The length of the flat text a tree stands for: the characters of its text nodes, and
  one for every line break.
\<close>

fun textLength :: "node \<Rightarrow> int"
  and textLength_list :: "node list \<Rightarrow> int"
where
  "textLength (Text s) = int (length s)"
| "textLength (Elem name cs) = (if name = ''BR'' then 1 else 0) + textLength_list cs"
| "textLength_list [] = 0"
| "textLength_list (n # ns) = textLength n + textLength_list ns"

text \<open>
  The first text node or line break of a tree in reading order, and the kind of the last
  one; both are used to say which offsets \<open>findNode\<close> resolves.
\<close>

fun firstLeaf :: "node \<Rightarrow> path \<Rightarrow> path option"
  and firstLeaf_children :: "node list \<Rightarrow> path \<Rightarrow> nat \<Rightarrow> path option"
where
  "firstLeaf (Text s) p = Some p"
| "firstLeaf (Elem name cs) p = (if name = ''BR'' then Some p else firstLeaf_children cs p 0)"
| "firstLeaf_children [] p i = None"
| "firstLeaf_children (n # ns) p i =
     (case firstLeaf n (p @ [i]) of
        Some q \<Rightarrow> Some q
      | None \<Rightarrow> firstLeaf_children ns p (Suc i))"

datatype leafKind = IsText | IsBreak

fun lastKind :: "node \<Rightarrow> leafKind option"
  and lastKind_list :: "node list \<Rightarrow> leafKind option"
where
  "lastKind (Text s) = Some IsText"
| "lastKind (Elem name cs) =
     (case lastKind_list cs of
        Some k \<Rightarrow> Some k
      | None \<Rightarrow> (if name = ''BR'' then Some IsBreak else None))"
| "lastKind_list [] = None"
| "lastKind_list (n # ns) =
     (case lastKind_list ns of
        Some k \<Rightarrow> Some k
      | None \<Rightarrow> lastKind n)"

definition endsWithText :: "node \<Rightarrow> bool" where
  "endsWithText root = (lastKind root = Some IsText)"

section \<open>Strings\<close>

text \<open>
  The string operations \<open>alignWord\<close> uses, for a one-character search string:
  \<open>substring\<close> clamps both indices to the string and swaps them when they are out of
  order; \<open>indexOf\<close> and \<open>lastIndexOf\<close> return \<open>-1\<close> when the character does not occur.
\<close>

definition substring :: "string \<Rightarrow> int \<Rightarrow> int \<Rightarrow> string" where
  "substring s a b =
     (let n = int (length s);
          a' = min (max a 0) n;
          b' = min (max b 0) n;
          lo = min a' b';
          hi = max a' b'
      in take (nat (hi - lo)) (drop (nat lo) s))"

fun indexOf :: "string \<Rightarrow> char \<Rightarrow> int" where
  "indexOf [] c = - 1"
| "indexOf (x # xs) c =
     (if x = c then 0 else (let i = indexOf xs c in if i = - 1 then - 1 else i + 1))"

definition lastIndexOf :: "string \<Rightarrow> char \<Rightarrow> int" where
  "lastIndexOf s c =
     (let i = indexOf (rev s) c in if i = - 1 then - 1 else int (length s) - 1 - i)"

definition space :: char where
  "space = CHR '' ''"

definition newline :: char where
  "newline = CHR 0x0A"

section \<open>Errors\<close>

text \<open>
  What can be thrown: a \<open>TypeError\<close> when a property of \<open>undefined\<close> is read, the
  platform's \<open>IndexSizeError\<close> when a range boundary is set outside its node, and the
  failures the spec names in its section 7. \<open>UnsupportedGranularityError\<close> is listed
  there; no function below produces it.
\<close>

datatype error =
    TypeError
  | IndexSizeError
  | OffsetOutOfRangeError
  | SelectionNormalizationError
  | UnsupportedGranularityError

section \<open>Ranges of the platform\<close>

record range =
  startContainer :: path
  startOffset :: int
  endContainer :: path
  endOffset :: int

text \<open>
  \<open>lengthProp\<close> is the \<open>length\<close> property as scripts read it: a text node has one, an
  element has none (\<open>undefined\<close>). \<open>nodeLength\<close> is the length the platform checks a
  boundary offset against: the characters of a text node, the number of children of an
  element. A path that leads to no node of the root is read as an empty node.
  An offset argument is an unsigned long: \<open>undefined\<close> becomes 0 and a number wraps
  modulo \<open>2 ^ 32\<close>.
\<close>

fun lengthProp :: "node \<Rightarrow> int option" where
  "lengthProp (Text s) = Some (int (length s))"
| "lengthProp (Elem name cs) = None"

fun nodeLength :: "node \<Rightarrow> int" where
  "nodeLength (Text s) = int (length s)"
| "nodeLength (Elem name cs) = int (length cs)"

definition lengthPropAt :: "node \<Rightarrow> path \<Rightarrow> int option" where
  "lengthPropAt root p = (case nodeAt root p of None \<Rightarrow> None | Some n \<Rightarrow> lengthProp n)"

definition nodeLengthAt :: "node \<Rightarrow> path \<Rightarrow> int" where
  "nodeLengthAt root p = (case nodeAt root p of None \<Rightarrow> 0 | Some n \<Rightarrow> nodeLength n)"

definition toUnsignedLong :: "int option \<Rightarrow> int" where
  "toUnsignedLong v = (case v of None \<Rightarrow> 0 | Some n \<Rightarrow> n mod 4294967296)"

text \<open>
  A boundary point \<open>(node, offset)\<close> lies before child \<open>offset\<close> of its node, so the
  order of boundary points in the tree is the lexicographic order of the node's path
  followed by the offset.
\<close>

definition isAfter :: "path \<Rightarrow> int \<Rightarrow> path \<Rightarrow> int \<Rightarrow> bool" where
  "isAfter p off q off' = (q @ [nat off'] < p @ [nat off])"

text \<open>
  \<open>Range.setStart\<close> and \<open>Range.setEnd\<close>: an offset greater than the node's length is an
  \<open>IndexSizeError\<close>; otherwise the boundary is set, and the other boundary follows when
  the new one has passed it.
\<close>

definition setStart :: "node \<Rightarrow> range \<Rightarrow> path \<Rightarrow> int option \<Rightarrow> error + range" where
  "setStart root r node offset =
     (let off = toUnsignedLong offset in
      if off > nodeLengthAt root node then Inl IndexSizeError
      else if isAfter node off (endContainer r) (endOffset r)
      then Inr \<lparr>startContainer = node, startOffset = off, endContainer = node, endOffset = off\<rparr>
      else Inr (r\<lparr>startContainer := node, startOffset := off\<rparr>))"

definition setEnd :: "node \<Rightarrow> range \<Rightarrow> path \<Rightarrow> int option \<Rightarrow> error + range" where
  "setEnd root r node offset =
     (let off = toUnsignedLong offset in
      if off > nodeLengthAt root node then Inl IndexSizeError
      else if isAfter (startContainer r) (startOffset r) node off
      then Inr \<lparr>startContainer = node, startOffset = off, endContainer = node, endOffset = off\<rparr>
      else Inr (r\<lparr>endContainer := node, endOffset := off\<rparr>))"

text \<open>
  \<open>document.createRange()\<close> gives a collapsed range at the start of the document, which
  lies before every node of the root; within the root it behaves as the collapsed range
  at the root's own start.
\<close>

definition createRange :: range where
  "createRange = \<lparr>startContainer = [], startOffset = 0, endContainer = [], endOffset = 0\<rparr>"

section \<open>Word alignment: \<open>alignWord\<close> (lines 204 to 253)\<close>

text \<open>
  Modelled from the spec: \<open>Utils.HTML.findIdxContainer\<close> (\<open>utils/html.js\<close>) is not among
  the sources. Section 4.2 says that the aligned offsets are translated back into a DOM
  range using the offset resolution of section 4.1, which is the traversal \<open>findNode\<close>
  implements: a counter is decremented by each text node's length and by 1 for each
  line break, and the node that contains the offset is returned with the residual local
  offset. An offset that resolves to no node is the \<open>OffsetOutOfRangeError\<close> of
  section 7. The root is the component's \<open>myRef\<close>.
\<close>

definition findIdxContainer :: "node \<Rightarrow> int \<Rightarrow> error + (path \<times> int)" where
  "findIdxContainer root globidx =
     (case findNode root globidx of
        None \<Rightarrow> Inl OffsetOutOfRangeError
      | Some (node, len) \<Rightarrow> Inr (node, len))"

text \<open>
  The left half of \<open>alignWord\<close>: \<open>r\<close> is the range given, \<open>r2\<close> its clone.
\<close>

definition alignWord_left :: "string \<Rightarrow> node \<Rightarrow> range \<Rightarrow> range \<Rightarrow> int \<Rightarrow> error + range" where
  "alignWord_left val root r r2 start =
     (let strleft = substring val 0 start in
      if length strleft > 0 then
        (let idxSpace = lastIndexOf strleft space;
             idxNewline = lastIndexOf strleft newline;
             idx = (if idxSpace > idxNewline then idxSpace else idxNewline)
         in if idx = - 1 then setStart root r2 (startContainer r) (Some 0)
            else if idx > 0 then
              (case findIdxContainer root (idx + 1) of
                 Inl e \<Rightarrow> Inl e
               | Inr (node, len) \<Rightarrow> setStart root r2 node (Some len))
            else Inr r2)
      else Inr r2)"

text \<open>
  The right half. \<open>idx\<close> is declared without a value and assigned by up to three
  conditionals, so it is an option: \<open>None\<close> is \<open>undefined\<close>, which \<open>idx + end\<close> turns into
  \<open>NaN\<close>, and \<open>NaN\<close> passes neither of the two tests that follow.
\<close>

definition rightIdx :: "int \<Rightarrow> int \<Rightarrow> int option" where
  "rightIdx idxSpace idxNewline =
     (let idx0 = None;
          idx1 = (if idxNewline = - 1 then Some idxSpace else idx0);
          idx2 = (if idxSpace = - 1 then Some idxNewline else idx1);
          idx3 = (if idxNewline > 0 \<and> idxSpace > 0
                  then Some (if idxSpace > idxNewline then idxNewline else idxSpace)
                  else idx2)
      in idx3)"

definition alignWord_right :: "string \<Rightarrow> node \<Rightarrow> range \<Rightarrow> range \<Rightarrow> int \<Rightarrow> error + range" where
  "alignWord_right val root r r2 end' =
     (let strright = substring val end' (int (length val)) in
      if length strright > 0 then
        (let idxSpace = indexOf strright space;
             idxNewline = indexOf strright newline
         in case rightIdx idxSpace idxNewline of
              None \<Rightarrow> Inr r2
            | Some i \<Rightarrow>
                (let idx = i + end' in
                 if idx = - 1 then
                   setEnd root r2 (endContainer r) (lengthPropAt root (endContainer r))
                 else if idx > 0 then
                   (case findIdxContainer root (idx + 1) of
                      Inl e \<Rightarrow> Inl e
                    | Inr (node, len) \<Rightarrow> setEnd root r2 node (Some (len - 1)))
                 else Inr r2))
      else Inr r2)"

definition alignWord :: "string \<Rightarrow> node \<Rightarrow> range \<Rightarrow> int \<Rightarrow> int \<Rightarrow> error + range" where
  "alignWord val root r start end' =
     (case alignWord_left val root r r start of
        Inl e \<Rightarrow> Inl e
      | Inr r2 \<Rightarrow> alignWord_right val root r r2 end')"

section \<open>The tag, its regions and the collaborators outside \<open>Text.js\<close>\<close>

datatype granularity = Symbol | Word | Sentence | Paragraph

text \<open>
  The platform's selection: \<open>ranges\<close> holds what \<open>getRangeAt\<close> returns for the indices
  below \<open>rangeCount\<close>, \<open>selectedText\<close> what \<open>toString()\<close> returns.
\<close>

record selection =
  isCollapsed :: bool
  ranges :: "range list"
  selectedText :: string

text \<open>
  What the tag reads of a label state: the name of its type and whether it is selected.
\<close>

record labelState =
  typeName :: string
  isSelected :: bool

text \<open>
  The object \<open>xpath.fromRange\<close> returns, and the normalized range that
  \<open>captureDocumentSelection\<close> makes of it by adding \<open>_range\<close> and \<open>text\<close> and overwriting both
  offsets.
\<close>

record xpathRange =
  x_start :: string
  x_startOffset :: int
  x_end :: string
  x_endOffset :: int

record normedRange =
  n_start :: string
  n_end :: string
  n_startOffset :: int
  n_endOffset :: int
  n_text :: string
  n_range :: "range option"

text \<open>
  A region as \<open>createRegion\<close> builds it: the seven fields handed to
  \<open>TextRegionModel.create\<close> and the attached \<open>_range\<close>. A \<open>pid\<close> of \<open>None\<close> is \<open>undefined\<close>, left
  to the region model's default.
\<close>

record region =
  r_pid :: "string option"
  r_startOffset :: int
  r_endOffset :: int
  r_start :: string
  r_end :: string
  r_text :: string
  r_states :: "labelState list option"
  r_range :: "range option"

text \<open>
  The tag's model (\<open>TextModel\<close>): its regions, the counter \<open>_update\<close> and the two
  attributes the view reads.
\<close>

record textModel =
  regions :: "region list"
  update :: int
  selectionenabled :: bool
  granularity :: granularity

text \<open>
  A serialized region as \<open>fromStateJSON\<close> reads it: \<open>obj.id\<close>, \<open>obj.from_name\<close>,
  \<open>obj.normalization\<close> and the five fields it takes out of \<open>obj.value\<close>. \<open>fromStateJSON\<close>
  stores \<open>value.start\<close> and \<open>value.end\<close> in the numeric offsets of the region, so all four
  coordinates are numbers here.
\<close>

record serializedValue =
  v_start :: int
  v_startOffset :: int
  v_end :: int
  v_endOffset :: int
  v_text :: string

record serialized =
  o_id :: string
  o_from_name :: string
  o_normalization :: "string option"
  o_value :: serializedValue

text \<open>
  The collaborators whose code is outside \<open>Text.js\<close> are parameters:
  \<^item> \<open>getValue\<close>: the text value after template interpolation and decoding;
  \<^item> \<open>mainOffsets\<close>: \<open>Utils.HTML.mainOffsets\<close>, the global offsets of the current
    selection;
  \<^item> \<open>fromRange\<close>: \<open>xpath.fromRange\<close> of the library xpath-range, which throws for a range
    it cannot express relative to the root;
  \<^item> \<open>splitBoundaries\<close>: splits the text nodes at the boundaries of a range, which
    changes the tree and the range;
  \<^item> \<open>createSpans\<close>: the region's own highlighting of its range, which changes the
    tree;
  \<^item> \<open>restoreState\<close>: \<open>restoreNewsnapshot(fromModel)\<close> followed by the restored state's
    own \<open>fromStateJSON(obj)\<close>.
  A collaborator that throws leaves the tree as it was.
\<close>

record env =
  getValue :: string
  mainOffsets :: "node \<Rightarrow> selection \<Rightarrow> int \<times> int"
  fromRange :: "range \<Rightarrow> node \<Rightarrow> error + xpathRange"
  splitBoundaries :: "node \<Rightarrow> range \<Rightarrow> error + node \<times> range"
  createSpans :: "node \<Rightarrow> region \<Rightarrow> error + node"
  restoreState :: "string \<Rightarrow> serialized \<Rightarrow> labelState"

section \<open>\<open>alignRange\<close> (lines 255 to 274)\<close>

text \<open>
  The result is the returned range, or \<open>None\<close> for \<open>undefined\<close>: the branches for
  \<open>sentence\<close> and \<open>paragraph\<close> are empty, and the function ends without a \<open>return\<close>.
\<close>

definition alignRange :: "env \<Rightarrow> granularity \<Rightarrow> node \<Rightarrow> selection \<Rightarrow> range \<Rightarrow> error + range option" where
  "alignRange e g root sel r =
     (if g = Symbol then Inr (Some r)
      else
        (let (start, end') = mainOffsets e root sel in
         if g = Word then
           (case alignWord (getValue e) root r start end' of
              Inl err \<Rightarrow> Inl err
            | Inr r2 \<Rightarrow> Inr (Some r2))
         else if g = Sentence then Inr None
         else if g = Paragraph then Inr None
         else Inr None))"

section \<open>\<open>captureDocumentSelection\<close> (lines 276 to 322)\<close>

definition nodeNameAt :: "node \<Rightarrow> path \<Rightarrow> string option" where
  "nodeNameAt root p = map_option nodeName (nodeAt root p)"

text \<open>Lines 287 to 289: an end inside a \<open>DIV\<close> is moved to the end of the start container.\<close>

definition clampEnd :: "node \<Rightarrow> range \<Rightarrow> error + range" where
  "clampEnd root r =
     (if nodeNameAt root (endContainer r) = Some ''DIV''
      then setEnd root r (startContainer r) (lengthPropAt root (startContainer r))
      else Inr r)"

text \<open>
  The body of the \<open>try\<close> block for one range \<open>r\<close>, which is \<open>undefined\<close> when \<open>alignRange\<close>
  returned nothing: then reading \<open>r.startContainer\<close> throws at the latest. The result is
  the normalized range and the tree after \<open>splitBoundaries\<close>. The test
  \<open>normedRange === null\<close> is never true where it stands, so every normalized range is
  pushed.
\<close>

definition normalize :: "env \<Rightarrow> node \<Rightarrow> selection \<Rightarrow> range option \<Rightarrow> error + normedRange \<times> node" where
  "normalize e root sel ro =
     (case ro of
        None \<Rightarrow> Inl TypeError
      | Some r \<Rightarrow>
          (case fromRange e r root of
             Inl err \<Rightarrow> Inl err
           | Inr x \<Rightarrow>
               (case splitBoundaries e root r of
                  Inl err \<Rightarrow> Inl err
                | Inr (root', r') \<Rightarrow>
                    (let ss = toGlobalOffset root' (startContainer r') (startOffset r');
                         ee = toGlobalOffset root' (endContainer r') (endOffset r')
                     in Inr (\<lparr>n_start = x_start x, n_end = x_end x,
                               n_startOffset = ss, n_endOffset = ee,
                               n_text = selectedText sel, n_range = Some r'\<rparr>, root')))))"

text \<open>
  The loop over the ranges of the selection. \<open>alignRange\<close> is called outside the \<open>try\<close>
  block, so what it throws leaves the loop; what the block throws is caught and the range
  is left out. The result is the error that left the loop if any, the ranges collected
  and the tree reached.
\<close>

fun captureLoop :: "env \<Rightarrow> granularity \<Rightarrow> selection \<Rightarrow> range list \<Rightarrow> node \<Rightarrow> normedRange list
    \<Rightarrow> error option \<times> normedRange list \<times> node" where
  "captureLoop e g sel [] root acc = (None, acc, root)"
| "captureLoop e g sel (r0 # rs) root acc =
     (case clampEnd root r0 of
        Inl err \<Rightarrow> (Some err, acc, root)
      | Inr r1 \<Rightarrow>
          (case alignRange e g root sel r1 of
             Inl err \<Rightarrow> (Some err, acc, root)
           | Inr r \<Rightarrow>
               (case normalize e root sel r of
                  Inl err \<Rightarrow> captureLoop e g sel rs root acc
                | Inr (normedRange, root') \<Rightarrow>
                    captureLoop e g sel rs root' (acc @ [normedRange]))))"

definition removeAllRanges :: "selection \<Rightarrow> selection" where
  "removeAllRanges sel = \<lparr>isCollapsed = True, ranges = [], selectedText = []\<rparr>"

definition captureDocumentSelection :: "env \<Rightarrow> granularity \<Rightarrow> node \<Rightarrow> selection
    \<Rightarrow> error option \<times> normedRange list \<times> node \<times> selection" where
  "captureDocumentSelection e g root sel =
     (if isCollapsed sel then (None, [], root, sel)
      else
        (case captureLoop e g sel (ranges sel) root [] of
           (Some err, acc, root') \<Rightarrow> (Some err, acc, root', sel)
         | (None, acc, root') \<Rightarrow> (None, acc, root', removeAllRanges sel)))"

section \<open>The model's actions (lines 65 to 174)\<close>

definition activeStates :: "labelState list option \<Rightarrow> labelState list option" where
  "activeStates states =
     (case states of
        None \<Rightarrow> None
      | Some sts \<Rightarrow>
          Some (filter (\<lambda>s. isSelected s \<and> (typeName s = ''LabelsModel'' \<or> typeName s = ''RatingModel'')) sts))"

definition needsUpdate :: "textModel \<Rightarrow> textModel" where
  "needsUpdate self = self\<lparr>update := update self + 1\<rparr>"

definition createRegion :: "region \<Rightarrow> textModel \<Rightarrow> region \<times> textModel" where
  "createRegion p self =
     (let r = \<lparr>r_pid = r_pid p, r_startOffset = r_startOffset p, r_endOffset = r_endOffset p,
               r_start = r_start p, r_end = r_end p, r_text = r_text p,
               r_states = r_states p, r_range = r_range p\<rparr>
      in (r, self\<lparr>regions := regions self @ [r]\<rparr>))"

text \<open>
  \<open>addRegion\<close> spreads the normalized range into the argument of \<open>createRegion\<close> and adds
  the cloned states. The states are those of the label layer at the time of the call;
  its \<open>unselectAll\<close> acts on that layer only. With no states at all, \<open>states.length\<close>
  throws.
\<close>

definition addRegion :: "normedRange \<Rightarrow> labelState list option \<Rightarrow> textModel
    \<Rightarrow> error + region option \<times> textModel" where
  "addRegion rng states self =
     (case activeStates states of
        None \<Rightarrow> Inl TypeError
      | Some sts \<Rightarrow>
          if length sts = 0 then Inr (None, self)
          else
            (let clonedStates = Some (map (\<lambda>s. s) sts);
                 (r, self') = createRegion
                   \<lparr>r_pid = None, r_startOffset = n_startOffset rng,
                    r_endOffset = n_endOffset rng, r_start = n_start rng,
                    r_end = n_end rng, r_text = n_text rng,
                    r_states = clonedStates, r_range = n_range rng\<rparr> self
             in Inr (Some r, self')))"

text \<open>
  \<open>fromStateJSON\<close>: \<open>fromModelType\<close> is \<open>fromModel.type\<close>. For a text area or choices the
  call is handed on to the tag named by \<open>obj.from_name\<close> and nothing changes here. The
  \<open>normalization\<close> put into \<open>tree\<close> is not among the fields \<open>createRegion\<close> copies.
\<close>

definition fromStateJSON :: "env \<Rightarrow> serialized \<Rightarrow> string \<Rightarrow> textModel \<Rightarrow> textModel" where
  "fromStateJSON e obj fromModelType self =
     (let start = v_start (o_value obj);
          startOffset = v_startOffset (o_value obj);
          end' = v_end (o_value obj);
          endOffset = v_endOffset (o_value obj);
          text' = v_text (o_value obj)
      in if fromModelType = ''textarea'' \<or> fromModelType = ''choices'' then self
         else
           (let states = restoreState e fromModelType obj;
                tree = \<lparr>r_pid = Some (o_id obj), r_startOffset = start, r_endOffset = end',
                        r_start = [], r_end = [], r_text = text',
                        r_states = Some [states], r_range = None\<rparr>;
                (r, self') = createRegion tree self
            in needsUpdate self'))"

section \<open>The view: \<open>onMouseUp\<close> (lines 328 to 344) and \<open>_handleUpdate\<close> (lines 346 to 396)\<close>

text \<open>
  What the view's handlers read and change: the tag's model, the rendered root
  (\<open>myRef\<close>), the platform's selection and the flag \<open>doSelection\<close> of the event. A handler
  returns the error that left it, if any, and the state reached.
\<close>

record view =
  item :: textModel
  myRef :: node
  selection :: selection
  doSelection :: bool

definition onMouseUp :: "env \<Rightarrow> labelState list option \<Rightarrow> view \<Rightarrow> error option \<times> view" where
  "onMouseUp e sts v =
     (if \<not> selectionenabled (item v) then (None, v)
      else
        (case captureDocumentSelection e (granularity (item v)) (myRef v) (selection v) of
           (Some err, selectedRanges, root', sel') \<Rightarrow>
             (Some err, v\<lparr>myRef := root', selection := sel'\<rparr>)
         | (None, selectedRanges, root', sel') \<Rightarrow>
             (let v1 = v\<lparr>myRef := root', selection := sel'\<rparr>;
                  states = activeStates sts
              in if states = None \<or> states = Some [] then (None, v1)
                 else
                   (case selectedRanges of
                      [] \<Rightarrow> (None, v1)
                    | first # others \<Rightarrow>
                        (case addRegion first sts (item v1) of
                           Inl err \<Rightarrow> (Some err, v1\<lparr>doSelection := True\<rparr>)
                         | Inr (None, self') \<Rightarrow>
                             (Some TypeError, v1\<lparr>item := self', doSelection := True\<rparr>)
                         | Inr (Some htxRange, self') \<Rightarrow>
                             (case createSpans e (myRef v1) htxRange of
                                Inl err \<Rightarrow>
                                  (Some err, v1\<lparr>item := self', doSelection := True\<rparr>)
                              | Inr root'' \<Rightarrow>
                                  (None, v1\<lparr>item := self', myRef := root'',
                                             doSelection := True\<rparr>)))))))"

text \<open>
  The callback of \<open>forEach\<close> in \<open>_handleUpdate\<close> for one region. Reading \<open>ss.node\<close> or
  \<open>ee.node\<close> of an offset that \<open>findNode\<close> did not resolve throws; the test that would
  skip such a region is commented out in the source (lines 382 and 383).
\<close>

definition materialize :: "env \<Rightarrow> node \<Rightarrow> region \<Rightarrow> error option \<times> node \<times> region" where
  "materialize e root r =
     (let ss = findNode root (r_startOffset r);
          ee = findNode root (r_endOffset r);
          rng = createRange
      in case ss of
           None \<Rightarrow> (Some TypeError, root, r)
         | Some (snode, sleft) \<Rightarrow>
             (case setStart root rng snode (Some sleft) of
                Inl err \<Rightarrow> (Some err, root, r)
              | Inr rng1 \<Rightarrow>
                  (case ee of
                     None \<Rightarrow> (Some TypeError, root, r)
                   | Some (enode, eleft) \<Rightarrow>
                       (case setEnd root rng1 enode (Some eleft) of
                          Inl err \<Rightarrow> (Some err, root, r)
                        | Inr rng2 \<Rightarrow>
                            (case splitBoundaries e root rng2 of
                               Inl err \<Rightarrow> (Some err, root, r)
                             | Inr (root', rng3) \<Rightarrow>
                                 (let r' = r\<lparr>r_range := Some rng3\<rparr> in
                                  case createSpans e root' r' of
                                    Inl err \<Rightarrow> (Some err, root', r')
                                  | Inr root'' \<Rightarrow> (None, root'', r')))))))"

text \<open>
  \<open>forEach\<close> over the regions: an error thrown by the callback ends the loop, and the
  regions after it are left as they were.
\<close>

fun forEachRegion :: "env \<Rightarrow> node \<Rightarrow> region list \<Rightarrow> error option \<times> node \<times> region list" where
  "forEachRegion e root [] = (None, root, [])"
| "forEachRegion e root (r # rs) =
     (case materialize e root r of
        (Some err, root', r') \<Rightarrow> (Some err, root', r' # rs)
      | (None, root', r') \<Rightarrow>
          (case forEachRegion e root' rs of
             (err, root'', rs') \<Rightarrow> (err, root'', r' # rs')))"

definition handleUpdate :: "env \<Rightarrow> view \<Rightarrow> error option \<times> view" where
  "handleUpdate e v =
     (case forEachRegion e (myRef v) (regions (item v)) of
        (err, root', rs) \<Rightarrow> (err, v\<lparr>myRef := root', item := (item v)\<lparr>regions := rs\<rparr>\<rparr>))"

section \<open>Sample inputs\<close>

text \<open>
  A rendered value without line breaks, collaborators that succeed and leave the tree
  as it is, a selection of two ranges, an active label, and two saved regions, one of
  which ends beyond the text.
\<close>

definition foxRoot :: node where
  "foxRoot = Elem ''DIV'' [Text ''the quick brown fox'']"

definition sampleEnv :: env where
  "sampleEnv =
     \<lparr>getValue = ''the quick brown fox'',
      mainOffsets = (\<lambda>root sel. (5, 8)),
      fromRange = (\<lambda>r root. Inr \<lparr>x_start = ''/text()[1]'', x_startOffset = startOffset r,
                                   x_end = ''/text()[1]'', x_endOffset = endOffset r\<rparr>),
      splitBoundaries = (\<lambda>root r. Inr (root, r)),
      createSpans = (\<lambda>root r. Inr root),
      restoreState = (\<lambda>t obj. \<lparr>typeName = ''LabelsModel'', isSelected = True\<rparr>)\<rparr>"

definition foxSelection :: selection where
  "foxSelection =
     \<lparr>isCollapsed = False,
      ranges = [\<lparr>startContainer = [0], startOffset = 4, endContainer = [0], endOffset = 9\<rparr>,
                \<lparr>startContainer = [0], startOffset = 10, endContainer = [0], endOffset = 15\<rparr>],
      selectedText = ''quick''\<rparr>"

definition emptyModel :: textModel where
  "emptyModel = \<lparr>regions = [], update = 1, selectionenabled = True, granularity = Symbol\<rparr>"

definition activeLabel :: "labelState list option" where
  "activeLabel = Some [\<lparr>typeName = ''LabelsModel'', isSelected = True\<rparr>]"

definition foxView :: view where
  "foxView = \<lparr>item = emptyModel, myRef = foxRoot, selection = foxSelection, doSelection = False\<rparr>"

definition foxViewAfter :: view where
  "foxViewAfter =
     foxView\<lparr>item := emptyModel\<lparr>regions :=
        [\<lparr>r_pid = None, r_startOffset = 4, r_endOffset = 9, r_start = ''/text()[1]'',
          r_end = ''/text()[1]'', r_text = ''quick'',
          r_states = activeLabel,
          r_range = Some \<lparr>startContainer = [0], startOffset = 4, endContainer = [0], endOffset = 9\<rparr>\<rparr>]\<rparr>,
        selection := removeAllRanges foxSelection, doSelection := True\<rparr>"

definition savedRegion :: serialized where
  "savedRegion =
     \<lparr>o_id = ''r1'', o_from_name = ''label'', o_normalization = None,
      o_value = \<lparr>v_start = 4, v_startOffset = 40, v_end = 9, v_endOffset = 90,
                 v_text = ''quick''\<rparr>\<rparr>"

definition staleRegion :: region where
  "staleRegion =
     \<lparr>r_pid = Some ''r1'', r_startOffset = 16, r_endOffset = 25, r_start = [], r_end = [],
      r_text = ''fox jumps'', r_states = None, r_range = None\<rparr>"

definition quickRegion :: region where
  "quickRegion =
     \<lparr>r_pid = Some ''r2'', r_startOffset = 4, r_endOffset = 9, r_start = [], r_end = [],
      r_text = ''quick'', r_states = None, r_range = None\<rparr>"

section \<open>Properties of the offset resolution\<close>

text \<open>
  What \<open>traverse\<close> leaves in \<open>left\<close> when it returns nothing, where the node it returns
  lies, and what \<open>count\<close> adds up on the way to that node.
\<close>

lemma traverse_left:
  "traverse n p left = (None, left') \<Longrightarrow> left' = left - textLength n"
  "traverse_children ns p i left = (None, left') \<Longrightarrow> left' = left - textLength_list ns"
proof (induction n p left and ns p i left arbitrary: left' and left' rule: traverse_traverse_children.induct)
  case (4 n ns p i left)
  from "4.prems" obtain l1 where t: "traverse n (p @ [i]) left = (None, l1)"
    and c: "traverse_children ns p (Suc i) l1 = (None, left')"
    by (auto split: prod.splits option.splits)
  from "4.IH"(1)[OF t] have "l1 = left - textLength n" .
  moreover from "4.IH"(2)[OF t[symmetric] refl c] have "left' = l1 - textLength_list ns" .
  ultimately show ?case by simp
qed (auto split: if_splits)

lemma traverse_path:
  "traverse n p left = (Some (q, l), left') \<Longrightarrow> \<exists>r. q = p @ r"
  "traverse_children ns p i left = (Some (q, l), left') \<Longrightarrow> \<exists>j r. q = p @ (i + j) # r"
proof (induction n p left and ns p i left arbitrary: left' and left' rule: traverse_traverse_children.induct)
  case (2 name cs p left)
  then show ?case by (fastforce split: if_splits)
next
  case (4 n ns p i left)
  show ?case
  proof (cases "traverse n (p @ [i]) left")
    case (Pair res l1)
    show ?thesis
    proof (cases res)
      case None
      with Pair "4.prems" have "traverse_children ns p (Suc i) l1 = (Some (q, l), left')" by simp
      from "4.IH"(2)[OF Pair[unfolded None, symmetric] refl this] obtain j r where "q = p @ (Suc i + j) # r" by blast
      then have "q = p @ (i + Suc j) # r" by simp
      then show ?thesis by blast
    next
      case (Some a)
      with Pair "4.prems" have "traverse n (p @ [i]) left = (Some (q, l), left')" by simp
      from "4.IH"(1)[OF this] obtain r where "q = (p @ [i]) @ r" by blast
      then have "q = p @ (i + 0) # r" by simp
      then show ?thesis by blast
    qed
  qed
qed (auto split: if_splits)

lemma count_miss:
  "\<forall>r. q \<noteq> p @ r \<Longrightarrow> count n p q l pos = (False, pos + textLength n)"
  "\<forall>j r. q \<noteq> p @ (i + j) # r \<Longrightarrow> count_children ns p i q l pos = (False, pos + textLength_list ns)"
proof (induction n p q l pos and ns p i q l pos rule: count_count_children.induct)
  case (1 s p target localOffset pos)
  then show ?case by auto
next
  case (2 name cs p target localOffset pos)
  from "2.prems" have ne: "p \<noteq> target" by auto
  from "2.prems" have "\<forall>j r. target \<noteq> p @ (0 + j) # r" by auto
  from "2.IH"[OF ne this] ne show ?case by auto
next
  case (3 p i target localOffset pos)
  then show ?case by simp
next
  case (4 n ns p i target localOffset pos)
  have a: "\<forall>r. target \<noteq> (p @ [i]) @ r"
  proof (intro allI notI)
    fix r assume "target = (p @ [i]) @ r"
    then have "target = p @ (i + 0) # r" by simp
    with "4.prems" show False by blast
  qed
  have b: "\<forall>j r. target \<noteq> p @ (Suc i + j) # r"
  proof (intro allI notI)
    fix j r assume "target = p @ (Suc i + j) # r"
    then have "target = p @ (i + Suc j) # r" by simp
    with "4.prems" show False by blast
  qed
  from "4.IH"(1)[OF a] have c: "count n (p @ [i]) target localOffset pos = (False, pos + textLength n)" .
  from "4.IH"(2)[OF c[symmetric] _ b] c show ?case by (simp add: add.assoc)
qed

lemma traverse_count:
  "traverse n p left = (Some (q, l), left') \<Longrightarrow> count n p q l pos = (True, pos + left)"
  "traverse_children ns p i left = (Some (q, l), left') \<Longrightarrow> count_children ns p i q l pos = (True, pos + left)"
proof (induction n p left and ns p i left arbitrary: left' pos and left' pos rule: traverse_traverse_children.induct)
  case (1 s p left)
  then show ?case by (auto split: if_splits)
next
  case (2 name cs p left)
  show ?case
  proof (cases "name = ''BR'' \<and> left - 1 < 0")
    case True
    with "2.prems" show ?thesis by auto
  next
    case False
    let ?l = "if name = ''BR'' then left - 1 else left"
    from False "2.prems" have t: "traverse_children cs p 0 ?l = (Some (q, l), left')"
      by (auto split: if_splits)
    from traverse_path(2)[OF t] have ne: "p \<noteq> q" by auto
    have "count_children cs p 0 q l (if name = ''BR'' then pos + 1 else pos) = (True, (if name = ''BR'' then pos + 1 else pos) + ?l)"
    proof (cases "name = ''BR''")
      case True
      with False have nl: "\<not> left - 1 < 0" by simp
      from t True have "traverse_children cs p 0 (left - 1) = (Some (q, l), left')" by simp
      from "2.IH"(1)[OF True nl this] True show ?thesis by simp
    next
      case F: False
      from t F have "traverse_children cs p 0 left = (Some (q, l), left')" by simp
      from "2.IH"(2)[OF F this] F show ?thesis by simp
    qed
    with ne show ?thesis by auto
  qed
next
  case (3 p i left)
  then show ?case by simp
next
  case (4 n ns p i left)
  show ?case
  proof (cases "traverse n (p @ [i]) left")
    case (Pair res l1)
    show ?thesis
    proof (cases res)
      case None
      with Pair "4.prems" have t: "traverse_children ns p (Suc i) l1 = (Some (q, l), left')" by simp
      from Pair None traverse_left(1) have l1: "l1 = left - textLength n" by blast
      from traverse_path(2)[OF t] obtain j r where q: "q = p @ (Suc i + j) # r" by blast
      have "\<forall>r'. q \<noteq> (p @ [i]) @ r'" using q by auto
      from count_miss(1)[OF this] have c: "count n (p @ [i]) q l pos = (False, pos + textLength n)" .
      from "4.IH"(2)[OF Pair[unfolded None, symmetric] refl t] have "count_children ns p (Suc i) q l (pos + textLength n) = (True, pos + textLength n + l1)" .
      with c l1 show ?thesis by simp
    next
      case (Some a)
      with Pair "4.prems" have "traverse n (p @ [i]) left = (Some (q, l), left')" by simp
      from "4.IH"(1)[OF this] show ?thesis by simp
    qed
  qed
qed

lemma findNode_toGlobalOffset:
  "findNode root g = Some (p, l) \<Longrightarrow> toGlobalOffset root p l = g"
  using traverse_count(1)[of root "[]" g p l "snd (traverse root [] g)" 0]
  by (simp add: findNode_def toGlobalOffset_def prod_eq_iff)


lemma textLength_nonneg: "0 \<le> textLength n"
  and textLength_list_nonneg: "0 \<le> textLength_list ns"
  by (induction n and ns rule: textLength_textLength_list.induct) auto

lemma traverse_nonpositive:
  "left \<le> 0 \<Longrightarrow> traverse n p left = (map_option (\<lambda>q. (q, left)) (firstLeaf n p), left)"
  "left \<le> 0 \<Longrightarrow> traverse_children ns p i left = (map_option (\<lambda>q. (q, left)) (firstLeaf_children ns p i), left)"
  by (induction n p left and ns p i left rule: traverse_traverse_children.induct)
     (auto split: option.splits)

lemma lastKind_None:
  "lastKind n = None \<Longrightarrow> textLength n = 0"
  "lastKind_list ns = None \<Longrightarrow> textLength_list ns = 0"
  by (induction n and ns rule: lastKind_lastKind_list.induct)
     (auto split: option.splits if_splits)

lemma traverse_miss_left:
  "traverse n p left = (None, left') \<Longrightarrow>
     (lastKind n = Some IsText \<longrightarrow> 0 < left') \<and> (lastKind n = Some IsBreak \<longrightarrow> 0 \<le> left')"
  "traverse_children ns p i left = (None, left') \<Longrightarrow>
     (lastKind_list ns = Some IsText \<longrightarrow> 0 < left') \<and> (lastKind_list ns = Some IsBreak \<longrightarrow> 0 \<le> left')"
proof (induction n p left and ns p i left arbitrary: left' and left' rule: traverse_traverse_children.induct)
  case (1 s p left)
  then show ?case by (auto split: if_splits)
next
  case (2 name cs p left)
  let ?l = "if name = ''BR'' then left - 1 else left"
  from "2.prems" have t: "traverse_children cs p 0 ?l = (None, left')"
    and br: "name = ''BR'' \<Longrightarrow> \<not> left - 1 < 0"
    by (auto split: if_splits)
  show ?case
  proof (cases "lastKind_list cs")
    case None
    from traverse_left(2)[OF t] lastKind_None(2)[OF None] have "left' = ?l" by simp
    with None br show ?thesis by (auto split: if_splits)
  next
    case (Some k)
    show ?thesis
    proof (cases "name = ''BR''")
      case True
      with t have "traverse_children cs p 0 (left - 1) = (None, left')" by simp
      from "2.IH"(1)[OF True br[OF True] this] Some show ?thesis by simp
    next
      case False
      with t have "traverse_children cs p 0 left = (None, left')" by simp
      from "2.IH"(2)[OF False this] Some show ?thesis by simp
    qed
  qed
next
  case (3 p i left)
  then show ?case by simp
next
  case (4 n ns p i left)
  from "4.prems" obtain l1 where t: "traverse n (p @ [i]) left = (None, l1)"
    and c: "traverse_children ns p (Suc i) l1 = (None, left')"
    by (auto split: prod.splits option.splits)
  show ?case
  proof (cases "lastKind_list ns")
    case None
    from traverse_left(2)[OF c] lastKind_None(2)[OF None] have "left' = l1" by simp
    with "4.IH"(1)[OF t] None show ?thesis by simp
  next
    case (Some k)
    with "4.IH"(2)[OF t[symmetric] refl c] show ?thesis by simp
  qed
qed

lemma traverse_end:
  "traverse n p left = (Some (q, l), left') \<Longrightarrow> textLength n \<le> left \<Longrightarrow>
     \<exists>r s. q = p @ r \<and> nodeAt n r = Some (Text s) \<and> l = int (length s)"
  "traverse_children ns p i left = (Some (q, l), left') \<Longrightarrow> textLength_list ns \<le> left \<Longrightarrow>
     \<exists>j r s. q = p @ (i + j) # r \<and> j < length ns \<and> nodeAt (ns ! j) r = Some (Text s) \<and> l = int (length s)"
proof (induction n p left and ns p i left arbitrary: left' and left' rule: traverse_traverse_children.induct)
  case (1 s p left)
  then have "q = p @ [] \<and> nodeAt (Text s) [] = Some (Text s) \<and> l = int (length s)"
    by (auto split: if_splits)
  then show ?case by blast
next
  case (2 name cs p left)
  have nn: "0 \<le> textLength_list cs" by (rule textLength_list_nonneg)
  show ?case
  proof (cases "name = ''BR''")
    case True
    with "2.prems"(2) nn have nl: "\<not> left - 1 < 0" and le: "textLength_list cs \<le> left - 1" by auto
    from "2.prems"(1) True nl have "traverse_children cs p 0 (left - 1) = (Some (q, l), left')" by simp
    from "2.IH"(1)[OF True nl this le] obtain j r s where
      "q = p @ (0 + j) # r" "j < length cs" "nodeAt (cs ! j) r = Some (Text s)" "l = int (length s)" by blast
    then have "q = p @ (j # r) \<and> nodeAt (Elem name cs) (j # r) = Some (Text s) \<and> l = int (length s)" by simp
    then show ?thesis by blast
  next
    case False
    with "2.prems"(2) have le: "textLength_list cs \<le> left" by simp
    from "2.prems"(1) False have "traverse_children cs p 0 left = (Some (q, l), left')" by simp
    from "2.IH"(2)[OF False this le] obtain j r s where
      "q = p @ (0 + j) # r" "j < length cs" "nodeAt (cs ! j) r = Some (Text s)" "l = int (length s)" by blast
    then have "q = p @ (j # r) \<and> nodeAt (Elem name cs) (j # r) = Some (Text s) \<and> l = int (length s)" by simp
    then show ?thesis by blast
  qed
next
  case (3 p i left)
  then show ?case by simp
next
  case (4 n ns p i left)
  have n1: "0 \<le> textLength n" by (rule textLength_nonneg)
  have n2: "0 \<le> textLength_list ns" by (rule textLength_list_nonneg)
  show ?case
  proof (cases "traverse n (p @ [i]) left")
    case (Pair res l1)
    show ?thesis
    proof (cases res)
      case None
      with Pair "4.prems" have t: "traverse_children ns p (Suc i) l1 = (Some (q, l), left')" by simp
      from Pair None traverse_left(1) have l1: "l1 = left - textLength n" by blast
      with "4.prems"(2) have le: "textLength_list ns \<le> l1" by simp
      from "4.IH"(2)[OF Pair[unfolded None, symmetric] refl t le] obtain j r s where
        "q = p @ (Suc i + j) # r" "j < length ns" "nodeAt (ns ! j) r = Some (Text s)" "l = int (length s)" by blast
      then have "q = p @ (i + Suc j) # r \<and> Suc j < length (n # ns) \<and> nodeAt ((n # ns) ! Suc j) r = Some (Text s) \<and> l = int (length s)"
        by simp
      then show ?thesis by blast
    next
      case (Some a)
      with Pair "4.prems" have t: "traverse n (p @ [i]) left = (Some (q, l), left')" by simp
      from "4.prems"(2) n2 have le: "textLength n \<le> left" by simp
      from "4.IH"(1)[OF t le] obtain r s where
        "q = (p @ [i]) @ r" "nodeAt n r = Some (Text s)" "l = int (length s)" by blast
      then have "q = p @ (i + 0) # r \<and> 0 < length (n # ns) \<and> nodeAt ((n # ns) ! 0) r = Some (Text s) \<and> l = int (length s)"
        by simp
      then show ?thesis by blast
    qed
  qed
qed

lemma findNode_end:
  assumes "endsWithText root"
  shows "\<exists>p s. findNode root (textLength root) = Some (p, int (length s))
           \<and> nodeAt root p = Some (Text s)
           \<and> toGlobalOffset root p (int (length s)) = textLength root"
proof (cases "traverse root [] (textLength root)")
  case (Pair res left')
  show ?thesis
  proof (cases res)
    case None
    from traverse_left(1)[OF Pair[unfolded None]] have "left' = 0" by simp
    moreover from traverse_miss_left(1)[OF Pair[unfolded None]] assms have "0 < left'"
      by (simp add: endsWithText_def)
    ultimately show ?thesis by simp
  next
    case (Some a)
    obtain q l where a: "a = (q, l)" by (cases a)
    from Pair Some a have t: "traverse root [] (textLength root) = (Some (q, l), left')" by simp
    from traverse_end(1)[OF t] obtain r s where
      q: "q = [] @ r" and n: "nodeAt root r = Some (Text s)" and l: "l = int (length s)" by blast
    from t have f: "findNode root (textLength root) = Some (q, l)" by (simp add: findNode_def)
    from findNode_toGlobalOffset[OF f] f q n l show ?thesis by auto
  qed
qed

lemma findNode_resolves:
  assumes "0 \<le> g" and "g < textLength root"
  shows "\<exists>p l. findNode root g = Some (p, l) \<and> toGlobalOffset root p l = g"
proof (cases "traverse root [] g")
  case (Pair res left')
  show ?thesis
  proof (cases res)
    case None
    from traverse_left(1)[OF Pair[unfolded None]] assms have neg: "left' < 0" by simp
    from assms lastKind_None(1)[of root] obtain k where k: "lastKind root = Some k"
      by (cases "lastKind root") auto
    from traverse_miss_left(1)[OF Pair[unfolded None]] k have "0 \<le> left'"
      by (cases k) auto
    with neg show ?thesis by simp
  next
    case (Some a)
    obtain q l where a: "a = (q, l)" by (cases a)
    from Pair Some a have f: "findNode root g = Some (q, l)" by (simp add: findNode_def)
    from findNode_toGlobalOffset[OF f] f show ?thesis by blast
  qed
qed

lemma findNode_negative:
  "g < 0 \<Longrightarrow> findNode root g = map_option (\<lambda>p. (p, g)) (firstLeaf root [])"
  by (simp add: findNode_def traverse_nonpositive(1))

text \<open>
  C1 (the round trip is the identity on all of \<open>[0, length]\<close>, whatever the
  fragmentation). \<open>findNode_toGlobalOffset\<close> above gives the round trip for every offset
  that \<open>findNode\<close> resolves, and \<open>findNode_resolves\<close> shows that every offset from 0
  to below the length is resolved. The offset \<open>length\<close> itself is not resolved when the content ends
  with a line break: for the value \<open>ab\<close> followed by a newline, rendered as the text
  node \<open>ab\<close> and a \<open>BR\<close>, the flat text has length 3, \<open>toGlobalOffset\<close> of the position
  after the break is 3, and \<open>findNode\<close> returns \<open>undefined\<close> for 3.
\<close>

theorem findNode_end_after_break:
  "textLength (Elem ''DIV'' [Text ''ab'', Elem ''BR'' []]) = 3
   \<and> toGlobalOffset (Elem ''DIV'' [Text ''ab'', Elem ''BR'' []]) [1] 1 = 3
   \<and> findNode (Elem ''DIV'' [Text ''ab'', Elem ''BR'' []]) 3 = None"
  by (simp add: findNode_def toGlobalOffset_def)

text \<open>
  C2, as amended. At the offset \<open>length\<close>, on a root whose last text node or line break
  in reading order is a text node, \<open>findNode\<close> returns the end of a text node, and that
  position has the global offset \<open>length\<close>. A negative offset does not fail: \<open>findNode\<close>
  returns the first text node or line break of the root with the negative offset
  unchanged as the local offset, and nothing when the root has neither.
\<close>

theorem findNode_end_and_negative:
  "(endsWithText root \<longrightarrow>
      (\<exists>p s. findNode root (textLength root) = Some (p, int (length s))
         \<and> nodeAt root p = Some (Text s)
         \<and> toGlobalOffset root p (int (length s)) = textLength root))
   \<and> (g < 0 \<longrightarrow> findNode root g = map_option (\<lambda>p. (p, g)) (firstLeaf root []))"
  using findNode_end findNode_negative by blast

theorem findNode_end_and_negative_witness:
  "endsWithText (Elem ''DIV'' [Text ''ab'', Elem ''BR'' [], Text ''cd''])
   \<and> (- 1 :: int) < 0
   \<and> (\<exists>p s. findNode (Elem ''DIV'' [Text ''ab'', Elem ''BR'' [], Text ''cd'']) 5 = Some (p, int (length s))
         \<and> nodeAt (Elem ''DIV'' [Text ''ab'', Elem ''BR'' [], Text ''cd'']) p = Some (Text s)
         \<and> toGlobalOffset (Elem ''DIV'' [Text ''ab'', Elem ''BR'' [], Text ''cd'']) p (int (length s)) = 5)
   \<and> findNode (Elem ''DIV'' [Text ''ab'', Elem ''BR'' [], Text ''cd'']) (- 1) = Some ([0], - 1)"
  using findNode_end_and_negative [of "Elem ''DIV'' [Text ''ab'', Elem ''BR'' [], Text ''cd'']" "- 1"]
  by (simp add: endsWithText_def)

text \<open>
  C2 as stated fails for a negative offset: on the root with the one text node \<open>ab\<close>,
  \<open>findNode\<close> called with \<open>-1\<close> returns that node and the local offset \<open>-1\<close>.
\<close>

theorem findNode_negative_returns:
  "findNode (Elem ''DIV'' [Text ''ab'']) (- 1) = Some ([0], - 1)"
  by (simp add: findNode_def)

section \<open>Properties of the word alignment\<close>

lemmas alignWord_defs = alignWord_def alignWord_left_def alignWord_right_def substring_def
  lastIndexOf_def space_def newline_def rightIdx_def findIdxContainer_def findNode_def
  setStart_def setEnd_def toUnsignedLong_def nodeLengthAt_def lengthPropAt_def isAfter_def Let_def

text \<open>
  The index the right half chooses: the one that was found when only one search
  succeeds, the smaller one when both succeed beyond the boundary itself, and none when
  both succeed and one of them is at the boundary (the end then stays where it is).
\<close>

lemma rightIdx_choice:
  "idxNewline = - 1 \<Longrightarrow> rightIdx idxSpace idxNewline = Some idxSpace"
  "idxSpace = - 1 \<Longrightarrow> rightIdx idxSpace idxNewline = Some idxNewline"
  "0 < idxSpace \<Longrightarrow> 0 < idxNewline \<Longrightarrow> rightIdx idxSpace idxNewline = Some (min idxSpace idxNewline)"
  "0 \<le> idxSpace \<Longrightarrow> 0 \<le> idxNewline \<Longrightarrow> idxSpace = 0 \<or> idxNewline = 0 \<Longrightarrow>
     rightIdx idxSpace idxNewline = None"
  by (auto simp: rightIdx_def Let_def)

text \<open>
  C3. For the value \<open>the quick brown fox\<close>, rendered as one text node, and the raw
  offsets 5 and 8, \<open>alignWord\<close> returns, whatever range it was given, the range from
  local offset 4 to local offset 9 of the text node; these are the global offsets 4 and
  9, and the characters between them are \<open>quick\<close>.
\<close>

theorem alignWord_quick:
  "alignWord ''the quick brown fox'' foxRoot r 5 8
     = Inr \<lparr>startContainer = [0], startOffset = 4, endContainer = [0], endOffset = 9\<rparr>
   \<and> toGlobalOffset foxRoot [0] 4 = 4
   \<and> toGlobalOffset foxRoot [0] 9 = 9
   \<and> substring ''the quick brown fox'' 4 9 = ''quick''"
  by (simp add: foxRoot_def alignWord_defs toGlobalOffset_def)

text \<open>
  C7 (the end is expanded to the end of the text when neither a space nor a line break
  follows). In the same value, the selection from 16 to 18 is followed by \<open>x\<close> only.
  Both searches return \<open>-1\<close>, \<open>idx\<close> becomes \<open>-1 + 18\<close>, the test \<open>idx === -1\<close> that would
  move the end to the end of its container fails, and the end is set one character
  back, to 17, instead of to 19.
\<close>

theorem alignWord_end_of_text_shrinks:
  "alignWord ''the quick brown fox'' foxRoot
      \<lparr>startContainer = [0], startOffset = 16, endContainer = [0], endOffset = 18\<rparr> 16 18
     = Inr \<lparr>startContainer = [0], startOffset = 16, endContainer = [0], endOffset = 17\<rparr>
   \<and> indexOf (substring ''the quick brown fox'' 18 19) space = - 1
   \<and> indexOf (substring ''the quick brown fox'' 18 19) newline = - 1
   \<and> int (length ''the quick brown fox'') = 19"
  by (simp add: foxRoot_def alignWord_defs)

text \<open>
  C9 (an aligned range is returned unchanged). In the value \<open>ab\<close>, newline, \<open>cd\<close>,
  rendered as two text nodes around a \<open>BR\<close>, the range from 0 to 2 covers the word \<open>ab\<close>
  and ends on the line break. \<open>alignWord\<close> resolves offset 3 to the start of the text
  node \<open>cd\<close> and sets the end to local offset \<open>0 - 1\<close> there, which the platform refuses.
\<close>

theorem alignWord_end_on_break_throws:
  "alignWord ''ab\<newline>cd'' (Elem ''DIV'' [Text ''ab'', Elem ''BR'' [], Text ''cd''])
      \<lparr>startContainer = [0], startOffset = 0, endContainer = [0], endOffset = 2\<rparr> 0 2
     = Inl IndexSizeError
   \<and> ''ab\<newline>cd'' ! 2 = newline"
  by (simp add: alignWord_defs)

section \<open>Properties of \<open>alignRange\<close> and of the selection capturer\<close>

lemma clampEnd_returns: "\<exists>r'. clampEnd root r = Inr r'"
proof -
  have "toUnsignedLong (lengthPropAt root p) \<le> nodeLengthAt root p" for p
  proof (cases "nodeAt root p")
    case None
    then show ?thesis by (simp add: toUnsignedLong_def lengthPropAt_def nodeLengthAt_def)
  next
    case (Some n)
    then show ?thesis
      by (cases n) (simp_all add: toUnsignedLong_def lengthPropAt_def nodeLengthAt_def zmod_le_nonneg_dividend)
  qed
  then have "\<not> nodeLengthAt root (startContainer r) < toUnsignedLong (lengthPropAt root (startContainer r))"
    by (simp add: not_less)
  then show ?thesis by (simp add: clampEnd_def setEnd_def Let_def)
qed

lemma alignRange_undefined:
  "g = Sentence \<or> g = Paragraph \<Longrightarrow> alignRange e g root sel r = Inr None"
  by (auto simp: alignRange_def split: prod.splits)

lemma captureLoop_unsupported:
  "g = Sentence \<or> g = Paragraph \<Longrightarrow> captureLoop e g sel rs root acc = (None, acc, root)"
proof (induction rs)
  case Nil
  then show ?case by simp
next
  case (Cons r0 rs)
  obtain r1 where c: "clampEnd root r0 = Inr r1" using clampEnd_returns by blast
  from Cons.prems have a: "alignRange e g root sel r1 = Inr None" by (rule alignRange_undefined)
  from Cons c a show ?case by (simp add: normalize_def)
qed

text \<open>
  Under symbol granularity nothing leaves the loop: whatever the \<open>try\<close> block throws for
  one range is caught, and the loop goes on with the next range.
\<close>

lemma captureLoop_symbol_never_aborts:
  "fst (captureLoop e Symbol sel rs root acc) = None"
proof (induction rs arbitrary: root acc)
  case Nil
  then show ?case by simp
next
  case (Cons r0 rs)
  obtain r1 where c: "clampEnd root r0 = Inr r1" using clampEnd_returns by blast
  have a: "alignRange e Symbol root sel r1 = Inr (Some r1)" by (simp add: alignRange_def)
  show ?case
  proof (cases "normalize e root sel (Some r1)")
    case (Inl err)
    with c a Cons.IH show ?thesis by simp
  next
    case (Inr res)
    obtain nr root' where "res = (nr, root')" by (cases res)
    with Inr c a Cons.IH show ?thesis by simp
  qed
qed

text \<open>
  C5, as amended. Under sentence or paragraph granularity \<open>alignRange\<close> raises nothing:
  it returns \<open>undefined\<close>, which is not the range that symbol granularity returns
  unchanged. The selection capturer then drops every range inside its \<open>try\<close> block and
  returns the empty sequence without an error.
\<close>

theorem alignRange_unsupported_silent:
  assumes "g = Sentence \<or> g = Paragraph"
  shows "alignRange e g root sel r = Inr None
       \<and> alignRange e Symbol root sel r = Inr (Some r)
       \<and> fst (captureDocumentSelection e g root sel) = None
       \<and> fst (snd (captureDocumentSelection e g root sel)) = []"
  using assms alignRange_undefined[OF assms] captureLoop_unsupported[OF assms]
  by (simp add: captureDocumentSelection_def alignRange_def)

theorem alignRange_unsupported_silent_witness:
  "(Sentence = Sentence \<or> Sentence = Paragraph)
   \<and> alignRange sampleEnv Sentence foxRoot foxSelection
        \<lparr>startContainer = [0], startOffset = 4, endContainer = [0], endOffset = 9\<rparr> = Inr None
   \<and> fst (captureDocumentSelection sampleEnv Sentence foxRoot foxSelection) = None
   \<and> fst (snd (captureDocumentSelection sampleEnv Sentence foxRoot foxSelection)) = []"
  using alignRange_unsupported_silent [of Sentence sampleEnv foxRoot foxSelection
        "\<lparr>startContainer = [0], startOffset = 4, endContainer = [0], endOffset = 9\<rparr>"]
  by simp

text \<open>
  C5 as stated fails: for the sample selection under sentence granularity the outcome
  of \<open>alignRange\<close> is the value \<open>undefined\<close>, not an \<open>UnsupportedGranularityError\<close>.
\<close>

theorem alignRange_sentence_no_error:
  "alignRange sampleEnv Sentence foxRoot foxSelection
      \<lparr>startContainer = [0], startOffset = 4, endContainer = [0], endOffset = 9\<rparr> = Inr None
   \<and> alignRange sampleEnv Sentence foxRoot foxSelection
      \<lparr>startContainer = [0], startOffset = 4, endContainer = [0], endOffset = 9\<rparr>
       \<noteq> Inl UnsupportedGranularityError"
  by (simp add: alignRange_def sampleEnv_def)

text \<open>
  C8. When the platform's selection is collapsed, \<open>captureDocumentSelection\<close> returns the
  empty sequence and leaves tree and selection alone, and \<open>onMouseUp\<close> changes nothing:
  no region is created.
\<close>

theorem collapsed_selection_no_region:
  assumes "isCollapsed (selection v)"
  shows "captureDocumentSelection e g root (selection v) = (None, [], root, selection v)
       \<and> onMouseUp e sts v = (None, v)"
  using assms by (simp add: captureDocumentSelection_def onMouseUp_def Let_def)

theorem collapsed_selection_no_region_witness:
  "isCollapsed (selection (foxView\<lparr>selection := removeAllRanges foxSelection\<rparr>))
   \<and> onMouseUp sampleEnv activeLabel (foxView\<lparr>selection := removeAllRanges foxSelection\<rparr>)
       = (None, foxView\<lparr>selection := removeAllRanges foxSelection\<rparr>)
   \<and> regions (item (snd (onMouseUp sampleEnv activeLabel
         (foxView\<lparr>selection := removeAllRanges foxSelection\<rparr>)))) = []"
  using collapsed_selection_no_region [of "foxView\<lparr>selection := removeAllRanges foxSelection\<rparr>"
      sampleEnv Symbol foxRoot activeLabel]
  by (simp add: removeAllRanges_def foxView_def emptyModel_def)

text \<open>
  C10. Whatever \<open>onMouseUp\<close> does, the regions of the tag afterwards are either the
  regions before, or the regions before followed by the one region made of the first
  range that \<open>captureDocumentSelection\<close> returned; the other ranges are not used.
\<close>

theorem onMouseUp_first_range_only:
  assumes "onMouseUp e sts v = (err, v')"
  shows "regions (item v') = regions (item v)
       \<or> (\<exists>first others root' sel'.
             captureDocumentSelection e (granularity (item v)) (myRef v) (selection v)
               = (None, first # others, root', sel')
           \<and> regions (item v') = regions (item v) @
               [\<lparr>r_pid = None, r_startOffset = n_startOffset first,
                 r_endOffset = n_endOffset first, r_start = n_start first,
                 r_end = n_end first, r_text = n_text first,
                 r_states = activeStates sts, r_range = n_range first\<rparr>])"
  using assms
  by (auto simp: onMouseUp_def addRegion_def createRegion_def Let_def
           split: if_splits prod.splits option.splits list.splits sum.splits)

theorem onMouseUp_first_range_only_witness:
  "onMouseUp sampleEnv activeLabel foxView = (None, foxViewAfter)
   \<and> length (ranges (selection foxView)) = 2
   \<and> length (regions (item foxViewAfter)) = 1
   \<and> (regions (item foxViewAfter) = regions (item foxView)
       \<or> (\<exists>first others root' sel'.
             captureDocumentSelection sampleEnv (granularity (item foxView)) (myRef foxView) (selection foxView)
               = (None, first # others, root', sel')
           \<and> regions (item foxViewAfter) = regions (item foxView) @
               [\<lparr>r_pid = None, r_startOffset = n_startOffset first,
                 r_endOffset = n_endOffset first, r_start = n_start first,
                 r_end = n_end first, r_text = n_text first,
                 r_states = activeStates activeLabel, r_range = n_range first\<rparr>]))"
proof -
  have run: "onMouseUp sampleEnv activeLabel foxView = (None, foxViewAfter)"
    by (simp add: onMouseUp_def captureDocumentSelection_def foxView_def foxViewAfter_def
        foxSelection_def emptyModel_def sampleEnv_def foxRoot_def activeLabel_def clampEnd_def
        nodeNameAt_def alignRange_def normalize_def toGlobalOffset_def activeStates_def
        addRegion_def createRegion_def removeAllRanges_def Let_def)
  have two: "length (ranges (selection foxView)) = 2"
    by (simp add: foxView_def foxSelection_def)
  have one: "length (regions (item foxViewAfter)) = 1"
    by (simp add: foxViewAfter_def)
  from run two one onMouseUp_first_range_only [OF run] show ?thesis by blast
qed

section \<open>Properties of restoring and materializing regions\<close>

text \<open>
  C6, as amended. For a serialized region that comes from a model other than a text
  area or choices, \<open>fromStateJSON\<close> appends one region whose \<open>startOffset\<close> and \<open>endOffset\<close>
  are the serialized \<open>start\<close> and \<open>end\<close>, and whose own \<open>start\<close> and \<open>end\<close> are empty
  strings; the serialized \<open>startOffset\<close> and \<open>endOffset\<close> are read and not used.
\<close>

theorem fromStateJSON_offsets:
  assumes "fromModelType \<noteq> ''textarea''" and "fromModelType \<noteq> ''choices''"
  shows "regions (fromStateJSON e obj fromModelType self)
         = regions self @
           [\<lparr>r_pid = Some (o_id obj),
             r_startOffset = v_start (o_value obj),
             r_endOffset = v_end (o_value obj),
             r_start = [], r_end = [],
             r_text = v_text (o_value obj),
             r_states = Some [restoreState e fromModelType obj],
             r_range = None\<rparr>]"
  using assms by (simp add: fromStateJSON_def createRegion_def needsUpdate_def Let_def)

theorem fromStateJSON_offsets_witness:
  "''labels'' \<noteq> ''textarea'' \<and> ''labels'' \<noteq> ''choices''
   \<and> map r_startOffset (regions (fromStateJSON sampleEnv savedRegion ''labels'' emptyModel)) = [4]
   \<and> map r_endOffset (regions (fromStateJSON sampleEnv savedRegion ''labels'' emptyModel)) = [9]"
  using fromStateJSON_offsets [of "''labels''" sampleEnv savedRegion emptyModel]
  by (simp add: savedRegion_def emptyModel_def)

text \<open>
  C6 as stated fails: the saved region with \<open>start = 4\<close>, \<open>end = 9\<close>, \<open>startOffset = 40\<close>
  and \<open>endOffset = 90\<close> is restored with the offsets 4 and 9.
\<close>

theorem fromStateJSON_ignores_startOffset:
  "map r_startOffset (regions (fromStateJSON sampleEnv savedRegion ''labels'' emptyModel)) = [4]
   \<and> map r_endOffset (regions (fromStateJSON sampleEnv savedRegion ''labels'' emptyModel)) = [9]
   \<and> v_startOffset (o_value savedRegion) = 40
   \<and> v_endOffset (o_value savedRegion) = 90
   \<and> v_start (o_value savedRegion) = 4
   \<and> v_end (o_value savedRegion) = 9"
  by (simp add: fromStateJSON_def createRegion_def needsUpdate_def savedRegion_def emptyModel_def Let_def)

text \<open>
  C4 (a region whose offsets do not resolve is skipped, and the others are still
  materialized). With a region that ends at offset 25 of the 19 characters, followed by
  a region from 4 to 9, \<open>_handleUpdate\<close> ends with a \<open>TypeError\<close> at the first region
  and the second one keeps no range, although on its own it materializes.
\<close>

theorem handleUpdate_stale_region_aborts:
  "handleUpdate sampleEnv (foxView\<lparr>item := emptyModel\<lparr>regions := [staleRegion, quickRegion]\<rparr>\<rparr>)
     = (Some TypeError, foxView\<lparr>item := emptyModel\<lparr>regions := [staleRegion, quickRegion]\<rparr>\<rparr>)
   \<and> findNode foxRoot 25 = None
   \<and> materialize sampleEnv foxRoot quickRegion
     = (None, foxRoot, quickRegion\<lparr>r_range :=
          Some \<lparr>startContainer = [0], startOffset = 4, endContainer = [0], endOffset = 9\<rparr>\<rparr>)"
  by (simp add: handleUpdate_def materialize_def foxView_def emptyModel_def staleRegion_def
      quickRegion_def foxRoot_def sampleEnv_def findNode_def createRange_def setStart_def
      setEnd_def toUnsignedLong_def nodeLengthAt_def isAfter_def Let_def)

end
